theory Spec2Isabelle
  imports Complex_Main "HOL-Library.AList"
begin

section \<open>The REST endpoint tool of \<^verbatim>\<open>src/index.ts\<close>\<close>

text \<open>
  The server offers one tool, \<^verbatim>\<open>endpoint\<close>. Its handler checks the tool name and the
  arguments, normalises the endpoint, builds the request configuration, adds one
  authentication header chosen from the environment, hands the configuration to the HTTP
  client and wraps the outcome in a JSON envelope. The handler is modelled as the
  function \<open>call_tool\<close>; the HTTP client and the two clock readings are its parameters, and
  the list of configurations it hands to the client is part of its result.
\<close>

subsection \<open>JavaScript values\<close>

text \<open>
  Arguments arrive as parsed JSON. A string is the list of its bytes; a number is kept as
  a rational (the handler only ever tests a number for being zero); an object is the list
  of its properties in insertion order. \<open>JUndefined\<close> is what reading a missing property
  gives.
\<close>

datatype jsval =
    JUndefined
  | JNull
  | JBool bool
  | JNum rat
  | JStr string
  | JArr "jsval list"
  | JObj "(string \<times> jsval) list"

text \<open>The \<^verbatim>\<open>typeof\<close> operator: \<^verbatim>\<open>null\<close> and arrays are \<^verbatim>\<open>'object'\<close>.\<close>

fun typeof :: "jsval \<Rightarrow> string" where
  "typeof JUndefined = ''undefined''"
| "typeof JNull = ''object''"
| "typeof (JBool b) = ''boolean''"
| "typeof (JNum n) = ''number''"
| "typeof (JStr s) = ''string''"
| "typeof (JArr xs) = ''object''"
| "typeof (JObj ps) = ''object''"

text \<open>Truthiness, as \<^verbatim>\<open>if (v)\<close>, \<^verbatim>\<open>a && b\<close> and \<^verbatim>\<open>a || b\<close> test it.\<close>

fun truthy :: "jsval \<Rightarrow> bool" where
  "truthy JUndefined = False"
| "truthy JNull = False"
| "truthy (JBool b) = b"
| "truthy (JNum n) = (n \<noteq> 0)"
| "truthy (JStr s) = (s \<noteq> [])"
| "truthy (JArr xs) = True"
| "truthy (JObj ps) = True"

text \<open>
  Reading a property \<^verbatim>\<open>v.k\<close>. The handler reads \<^verbatim>\<open>method\<close>, \<^verbatim>\<open>endpoint\<close>,
  \<^verbatim>\<open>headers\<close> and \<^verbatim>\<open>body\<close> only, none of which an array or a primitive has; it never
  reads a property of \<^verbatim>\<open>null\<close> or \<^verbatim>\<open>undefined\<close>, because \<open>isValidEndpointArgs\<close>
  returns before.
\<close>

fun get_prop :: "jsval \<Rightarrow> string \<Rightarrow> jsval" where
  "get_prop (JObj ps) k = (case map_of ps k of None \<Rightarrow> JUndefined | Some v \<Rightarrow> v)"
| "get_prop v k = JUndefined"

text \<open>The characters of a string value; used on the endpoint once it is known to be a string.\<close>

fun str_value :: "jsval \<Rightarrow> string" where
  "str_value (JStr s) = s"
| "str_value v = []"

text \<open>Decimal digits of a number, as a template literal prints an integer.\<close>

definition digit_char :: "nat \<Rightarrow> char" where
  "digit_char d = ''0123456789'' ! d"

fun show_nat :: "nat \<Rightarrow> string" where
  "show_nat n =
     (if n < 10 then [digit_char n] else show_nat (n div 10) @ [digit_char (n mod 10)])"

definition show_int :: "int \<Rightarrow> string" where
  "show_int i = (if i < 0 then CHR ''-'' # show_nat (nat (- i)) else show_nat (nat i))"

text \<open>
  The own properties an object spread \<^verbatim>\<open>{...v}\<close> copies: those of an object, the
  indexed elements of an array. The handler spreads \<^verbatim>\<open>config.headers\<close> only, which is
  an object or an array at that point.
\<close>

fun spread :: "jsval \<Rightarrow> (string \<times> jsval) list" where
  "spread (JObj ps) = ps"
| "spread (JArr xs) = zip (map show_nat [0..<length xs]) xs"
| "spread v = []"

text \<open>
  The properties \<^verbatim>\<open>JSON.stringify\<close> writes for an object: it leaves out every property
  whose value is \<^verbatim>\<open>undefined\<close>.
\<close>

fun json_keys :: "jsval \<Rightarrow> string list" where
  "json_keys (JObj ps) = map fst (filter (\<lambda>p. snd p \<noteq> JUndefined) ps)"
| "json_keys v = []"

subsection \<open>Base64, as \<^verbatim>\<open>Buffer.from(s).toString('base64')\<close>\<close>

definition b64_alphabet :: string where
  "b64_alphabet = ''ABCDEFGHIJKLMNOPQRSTUVWXYZabcdefghijklmnopqrstuvwxyz0123456789+/''"

definition b64_char :: "nat \<Rightarrow> char" where
  "b64_char n = b64_alphabet ! n"

fun base64 :: "string \<Rightarrow> string" where
  "base64 [] = []"
| "base64 [a] =
     (let x = of_char a :: nat
      in [b64_char (x div 4), b64_char ((x mod 4) * 16), CHR ''='', CHR ''=''])"
| "base64 [a, b] =
     (let x = of_char a :: nat; y = of_char b :: nat
      in [b64_char (x div 4), b64_char ((x mod 4) * 16 + y div 16),
          b64_char ((y mod 16) * 4), CHR ''=''])"
| "base64 (a # b # c # rest) =
     (let x = of_char a :: nat; y = of_char b :: nat; z = of_char c :: nat
      in [b64_char (x div 4), b64_char ((x mod 4) * 16 + y div 16),
          b64_char ((y mod 16) * 4 + z div 64), b64_char (z mod 64)] @ base64 rest)"

subsection \<open>Environment and authentication checks\<close>

text \<open>
  The environment variables read at start-up. A variable that is not set is \<open>None\<close>; one
  set to the empty string is \<open>Some []\<close>. The process does not start without a non-empty
  \<^verbatim>\<open>REST_BASE_URL\<close>.
\<close>

record env =
  REST_BASE_URL :: string
  AUTH_BASIC_USERNAME :: "string option"
  AUTH_BASIC_PASSWORD :: "string option"
  AUTH_BEARER :: "string option"
  AUTH_APIKEY_HEADER_NAME :: "string option"
  AUTH_APIKEY_VALUE :: "string option"

text \<open>Truthiness of a variable: set, and not the empty string.\<close>

fun truthy_var :: "string option \<Rightarrow> bool" where
  "truthy_var None = False"
| "truthy_var (Some s) = (s \<noteq> [])"

text \<open>A variable inside a template literal or as a computed key: its text.\<close>

fun var_text :: "string option \<Rightarrow> string" where
  "var_text None = ''undefined''"
| "var_text (Some s) = s"

text \<open>A variable as a property value.\<close>

fun var_value :: "string option \<Rightarrow> jsval" where
  "var_value None = JUndefined"
| "var_value (Some s) = JStr s"

text \<open>
  \<^verbatim>\<open>hasBasicAuth = () => AUTH_BASIC_USERNAME && AUTH_BASIC_PASSWORD\<close> and its two
  siblings are only ever used as conditions, so each is modelled by the truthiness of
  what it returns.
\<close>

definition hasBasicAuth :: "env \<Rightarrow> bool" where
  "hasBasicAuth e = (truthy_var (AUTH_BASIC_USERNAME e) \<and> truthy_var (AUTH_BASIC_PASSWORD e))"

definition hasBearerAuth :: "env \<Rightarrow> bool" where
  "hasBearerAuth e = truthy_var (AUTH_BEARER e)"

definition hasApiKeyAuth :: "env \<Rightarrow> bool" where
  "hasApiKeyAuth e = (truthy_var (AUTH_APIKEY_HEADER_NAME e) \<and> truthy_var (AUTH_APIKEY_VALUE e))"

subsection \<open>Argument validation\<close>

text \<open>Lines 28 to 34, check by check.\<close>

definition isValidEndpointArgs :: "jsval \<Rightarrow> bool" where
  "isValidEndpointArgs args =
     (if typeof args \<noteq> ''object'' \<or> args = JNull then False
      else if get_prop args ''method'' \<notin> set [JStr ''GET'', JStr ''POST'', JStr ''PUT'', JStr ''DELETE'']
        then False
      else if typeof (get_prop args ''endpoint'') \<noteq> ''string'' then False
      else if get_prop args ''headers'' \<noteq> JUndefined \<and> typeof (get_prop args ''headers'') \<noteq> ''object''
        then False
      else True)"

subsection \<open>Endpoint normalisation\<close>

text \<open>
  \<^verbatim>\<open>endpoint.replace(/^\/+|\/+$/g, '')\<close> deletes every match, scanning from the left. The
  first alternative matches only at the start of the string and takes the whole leading
  run of slashes. At any later position the second alternative matches when the character
  there is a slash and only slashes follow up to the end; \<open>strip_trailing\<close> is that scan.
\<close>

fun strip_trailing :: "string \<Rightarrow> string" where
  "strip_trailing [] = []"
| "strip_trailing (c # cs) =
     (if c = CHR ''/'' \<and> dropWhile (\<lambda>x. x = CHR ''/'') cs = [] then []
      else c # strip_trailing cs)"

definition replace_slashes :: "string \<Rightarrow> string" where
  "replace_slashes endpoint = strip_trailing (dropWhile (\<lambda>x. x = CHR ''/'') endpoint)"

definition normalizedEndpoint :: "string \<Rightarrow> string" where
  "normalizedEndpoint endpoint = CHR ''/'' # replace_slashes endpoint"

subsection \<open>The request configuration\<close>

text \<open>
  \<^verbatim>\<open>AxiosRequestConfig\<close>, with the four properties the handler sets; \<open>method_cfg\<close> is
  its property \<^verbatim>\<open>method\<close>. \<open>data\<close> is \<open>None\<close> while the property has not been assigned.
\<close>

record AxiosRequestConfig =
  method_cfg :: jsval
  url :: string
  headers :: jsval
  data :: "jsval option"

text \<open>Reading \<^verbatim>\<open>config.data\<close>: \<^verbatim>\<open>undefined\<close> when it was never assigned.\<close>

definition data_value :: "AxiosRequestConfig \<Rightarrow> jsval" where
  "data_value config = (case data config of None \<Rightarrow> JUndefined | Some b \<Rightarrow> b)"

text \<open>
  The object literal \<^verbatim>\<open>{...h, [k]: v}\<close>: the properties of \<open>h\<close>, then \<open>k\<close> set to \<open>v\<close>,
  which replaces the value of a property \<open>k\<close> copied from \<open>h\<close> and adds one otherwise.
\<close>

definition overlay :: "string \<Rightarrow> jsval \<Rightarrow> jsval \<Rightarrow> jsval" where
  "overlay k v h = JObj (AList.update k v (spread h))"

text \<open>Lines 157 to 161: the initial configuration.\<close>

definition initial_config :: "jsval \<Rightarrow> AxiosRequestConfig" where
  "initial_config arguments =
     \<lparr> method_cfg = get_prop arguments ''method'',
       url = normalizedEndpoint (str_value (get_prop arguments ''endpoint'')),
       headers = (if truthy (get_prop arguments ''headers'') then get_prop arguments ''headers''
                  else JObj []),
       data = None \<rparr>"

text \<open>Lines 163 to 166: the body, for POST and PUT.\<close>

definition add_body :: "jsval \<Rightarrow> AxiosRequestConfig \<Rightarrow> AxiosRequestConfig" where
  "add_body arguments config =
     (if get_prop arguments ''method'' \<in> set [JStr ''POST'', JStr ''PUT'']
         \<and> truthy (get_prop arguments ''body'')
      then config\<lparr>data := Some (get_prop arguments ''body'')\<rparr>
      else config)"

text \<open>Lines 168 to 185: the authentication header.\<close>

definition add_auth :: "env \<Rightarrow> AxiosRequestConfig \<Rightarrow> AxiosRequestConfig" where
  "add_auth e config =
     (if hasBasicAuth e then
        (let base64Credentials =
               base64 (var_text (AUTH_BASIC_USERNAME e) @ '':'' @ var_text (AUTH_BASIC_PASSWORD e))
         in config\<lparr>headers :=
              overlay ''Authorization'' (JStr (''Basic '' @ base64Credentials)) (headers config)\<rparr>)
      else if hasBearerAuth e then
        config\<lparr>headers :=
          overlay ''Authorization'' (JStr (''Bearer '' @ var_text (AUTH_BEARER e))) (headers config)\<rparr>
      else if hasApiKeyAuth e then
        config\<lparr>headers :=
          overlay (var_text (AUTH_APIKEY_HEADER_NAME e)) (var_value (AUTH_APIKEY_VALUE e))
            (headers config)\<rparr>
      else config)"

definition request_config :: "env \<Rightarrow> jsval \<Rightarrow> AxiosRequestConfig" where
  "request_config e arguments = add_auth e (add_body arguments (initial_config arguments))"

text \<open>Lines 193 to 197: the name of the authentication method.\<close>

definition authMethod :: "env \<Rightarrow> string" where
  "authMethod e =
     (if hasBasicAuth e then ''basic''
      else if hasBearerAuth e then ''bearer''
      else if hasApiKeyAuth e then ''apikey''
      else ''none'')"

subsection \<open>The HTTP client and the envelopes\<close>

text \<open>
  A response of the client, and the three ways \<^verbatim>\<open>axiosInstance.request(config)\<close> can
  end: with a response (of any status, since \<^verbatim>\<open>validateStatus\<close> accepts all), with an
  error that \<^verbatim>\<open>axios.isAxiosError\<close> recognises (message, and a code that may be missing),
  or with any other error.
\<close>

record AxiosResponse =
  status :: nat
  statusText :: string
  response_headers :: jsval
  response_data :: jsval

datatype outcome =
    Responded AxiosResponse
  | AxiosError string "string option"
  | OtherError string

text \<open>Lines 203 to 224: the value serialised after a response.\<close>

definition success_envelope ::
  "env \<Rightarrow> AxiosRequestConfig \<Rightarrow> AxiosResponse \<Rightarrow> int \<Rightarrow> int \<Rightarrow> jsval" where
  "success_envelope e config response startTime endTime =
     JObj
      [(''request'', JObj
         [(''url'', JStr (REST_BASE_URL e @ url config)),
          (''method'', method_cfg config),
          (''headers'', headers config),
          (''body'', data_value config),
          (''authMethod'', JStr (authMethod e))]),
       (''response'', JObj
         [(''statusCode'', JNum (of_nat (status response))),
          (''statusText'', JStr (statusText response)),
          (''timing'', JStr (show_int (endTime - startTime) @ ''ms'')),
          (''headers'', response_headers response),
          (''body'', response_data response)]),
       (''validation'', JObj
         [(''isError'', JBool (400 \<le> status response)),
          (''messages'', JArr
            [JStr (if 400 \<le> status response
                   then ''Request failed with status '' @ show_nat (status response)
                   else ''Request completed successfully'')])])]"

text \<open>Lines 234 to 245: the value serialised after an error of the client.\<close>

definition failure_envelope ::
  "env \<Rightarrow> AxiosRequestConfig \<Rightarrow> string \<Rightarrow> string option \<Rightarrow> jsval" where
  "failure_envelope e config message code =
     JObj
      [(''error'', JObj
         [(''message'', JStr message),
          (''code'', var_value code),
          (''request'', JObj
            [(''url'', JStr (REST_BASE_URL e @ url config)),
             (''method'', method_cfg config),
             (''headers'', headers config),
             (''body'', data_value config)])])]"

subsection \<open>The handler of a tool call\<close>

text \<open>
  What the handler throws: an \<^verbatim>\<open>McpError\<close> with its code and message, or the client's
  error that it rethrows. What it returns: the value whose \<^verbatim>\<open>JSON.stringify\<close> text is the
  content, and whether the result carries \<^verbatim>\<open>isError: true\<close>.
\<close>

datatype ErrorCode = MethodNotFound | InvalidParams

datatype thrown = McpError ErrorCode string | Rethrown string

record CallToolResult =
  text_json :: jsval
  isError :: bool

text \<open>
  Lines 138 to 253. \<open>request\<close> is the client, \<open>startTime\<close> and \<open>endTime\<close> are the two readings
  of \<^verbatim>\<open>Date.now()\<close>. The first component of the result lists the configurations handed to
  the client, the second is what the handler throws (\<open>Inl\<close>) or returns (\<open>Inr\<close>).
\<close>

definition call_tool ::
  "env \<Rightarrow> (AxiosRequestConfig \<Rightarrow> outcome) \<Rightarrow> int \<Rightarrow> int \<Rightarrow> string \<Rightarrow> jsval
   \<Rightarrow> AxiosRequestConfig list \<times> (thrown + CallToolResult)" where
  "call_tool e request startTime endTime name arguments =
     (if name \<noteq> ''endpoint'' then
        ([], Inl (McpError MethodNotFound (''Unknown tool: '' @ name)))
      else if \<not> isValidEndpointArgs arguments then
        ([], Inl (McpError InvalidParams ''Invalid test endpoint arguments''))
      else
        (let config = request_config e arguments in
         case request config of
           Responded response \<Rightarrow>
             ([config],
              Inr \<lparr> text_json = success_envelope e config response startTime endTime,
                    isError = False \<rparr>)
         | AxiosError message code \<Rightarrow>
             ([config],
              Inr \<lparr> text_json = failure_envelope e config message code, isError = True \<rparr>)
         | OtherError err \<Rightarrow> ([config], Inl (Rethrown err))))"

text \<open>The value serialised by a call that returned, and the configurations it dispatched.\<close>

definition returned_json :: "AxiosRequestConfig list \<times> (thrown + CallToolResult) \<Rightarrow> jsval" where
  "returned_json r = (case snd r of Inl t \<Rightarrow> JUndefined | Inr res \<Rightarrow> text_json res)"

definition dispatched :: "AxiosRequestConfig list \<times> (thrown + CallToolResult) \<Rightarrow> AxiosRequestConfig list" where
  "dispatched r = fst r"

section \<open>Properties\<close>

declare show_nat.simps [simp del]

subsection \<open>Endpoint normalisation\<close>

lemma strip_trailing_keeps_non_slash:
  "dropWhile (\<lambda>x. x = CHR ''/'') cs \<noteq> [] \<Longrightarrow>
   dropWhile (\<lambda>x. x = CHR ''/'') (strip_trailing cs) \<noteq> []"
proof (induction cs)
  case Nil
  then show ?case by simp
next
  case (Cons c cs)
  show ?case
  proof (cases "c = CHR ''/''")
    case True
    with Cons.prems have "dropWhile (\<lambda>x. x = CHR ''/'') cs \<noteq> []" by simp
    with Cons.IH True show ?thesis by simp
  next
    case False
    then show ?thesis by simp
  qed
qed

lemma strip_trailing_idem: "strip_trailing (strip_trailing cs) = strip_trailing cs"
proof (induction cs)
  case Nil
  show ?case by simp
next
  case (Cons c cs)
  show ?case
  proof (cases "c = CHR ''/'' \<and> dropWhile (\<lambda>x. x = CHR ''/'') cs = []")
    case True
    then show ?thesis by simp
  next
    case False
    then have keep: "strip_trailing (c # cs) = c # strip_trailing cs" by simp
    have "\<not> (c = CHR ''/'' \<and> dropWhile (\<lambda>x. x = CHR ''/'') (strip_trailing cs) = [])"
      using False strip_trailing_keeps_non_slash [of cs] by blast
    then have "strip_trailing (c # strip_trailing cs) = c # strip_trailing (strip_trailing cs)"
      by simp
    with keep Cons.IH show ?thesis by simp
  qed
qed

lemma dropWhile_replace_slashes:
  "dropWhile (\<lambda>x. x = CHR ''/'') (replace_slashes s) = replace_slashes s"
proof (cases "dropWhile (\<lambda>x. x = CHR ''/'') s")
  case Nil
  have "replace_slashes s = []"
    unfolding replace_slashes_def Nil by simp
  then show ?thesis by simp
next
  case (Cons c cs)
  then have "c \<noteq> CHR ''/''"
    using hd_dropWhile [of "\<lambda>x. x = CHR ''/''" s] by auto
  then have "replace_slashes s = c # strip_trailing cs"
    unfolding replace_slashes_def Cons by simp
  with \<open>c \<noteq> CHR ''/''\<close> show ?thesis by simp
qed

lemma replace_slashes_fixed: "replace_slashes (CHR ''/'' # replace_slashes s) = replace_slashes s"
proof -
  have "replace_slashes (CHR ''/'' # replace_slashes s) =
        strip_trailing (dropWhile (\<lambda>x. x = CHR ''/'') (replace_slashes s))"
    by (simp add: replace_slashes_def)
  also have "\<dots> = strip_trailing (replace_slashes s)"
    by (simp only: dropWhile_replace_slashes)
  also have "\<dots> = replace_slashes s"
    by (simp add: replace_slashes_def strip_trailing_idem)
  finally show ?thesis .
qed

text \<open>The scan removes exactly the run of slashes at each end.\<close>

lemma strip_trailing_rev:
  "strip_trailing cs = rev (dropWhile (\<lambda>x. x = CHR ''/'') (rev cs))"
proof (induction cs)
  case Nil
  show ?case by simp
next
  case (Cons c cs)
  show ?case
  proof (cases "\<forall>x\<in>set cs. x = CHR ''/''")
    case True
    then have all: "dropWhile (\<lambda>x. x = CHR ''/'') cs = []" by simp
    from True have "dropWhile (\<lambda>x. x = CHR ''/'') (rev cs) = []" by simp
    with Cons.IH have "strip_trailing cs = []" by simp
    with all True show ?thesis by (simp add: dropWhile_append)
  next
    case False
    then have "dropWhile (\<lambda>x. x = CHR ''/'') cs \<noteq> []" by simp
    with False Cons.IH show ?thesis by (simp add: dropWhile_append)
  qed
qed

lemma replace_slashes_strips_both_ends:
  "replace_slashes s =
     rev (dropWhile (\<lambda>x. x = CHR ''/'') (rev (dropWhile (\<lambda>x. x = CHR ''/'') s)))"
  by (simp only: replace_slashes_def strip_trailing_rev)

text \<open>
  C6. Normalising an endpoint twice gives what normalising it once gives, for every
  endpoint string; and \<^verbatim>\<open>"/users/"\<close> and \<^verbatim>\<open>"users"\<close> both become \<^verbatim>\<open>"/users"\<close>, while
  \<^verbatim>\<open>"///a/b///"\<close> becomes \<^verbatim>\<open>"/a/b"\<close>.
\<close>

theorem normalizedEndpoint_idempotent:
  "normalizedEndpoint (normalizedEndpoint s) = normalizedEndpoint s
   \<and> normalizedEndpoint ''/users/'' = ''/users''
   \<and> normalizedEndpoint ''users'' = ''/users''
   \<and> normalizedEndpoint ''///a/b///'' = ''/a/b''"
proof -
  have "normalizedEndpoint (normalizedEndpoint s) = normalizedEndpoint s"
    by (simp add: normalizedEndpoint_def replace_slashes_fixed)
  moreover have "normalizedEndpoint ''/users/'' = ''/users''"
    by (simp add: normalizedEndpoint_def replace_slashes_def)
  moreover have "normalizedEndpoint ''users'' = ''/users''"
    by (simp add: normalizedEndpoint_def replace_slashes_def)
  moreover have "normalizedEndpoint ''///a/b///'' = ''/a/b''"
    by (simp add: normalizedEndpoint_def replace_slashes_def)
  ultimately show ?thesis by blast
qed

theorem normalizedEndpoint_idempotent_witness:
  "normalizedEndpoint (normalizedEndpoint ''//v1//items//'') = ''/v1//items''
   \<and> normalizedEndpoint ''//v1//items//'' = ''/v1//items''"
  using normalizedEndpoint_idempotent [of "''//v1//items//''"]
  by (simp add: normalizedEndpoint_def replace_slashes_def)

subsection \<open>What the handler does in each case\<close>

lemma call_tool_unknown_tool:
  "name \<noteq> ''endpoint'' \<Longrightarrow>
   call_tool e request startTime endTime name arguments =
     ([], Inl (McpError MethodNotFound (''Unknown tool: '' @ name)))"
  by (simp add: call_tool_def)

lemma call_tool_invalid_args:
  "\<not> isValidEndpointArgs arguments \<Longrightarrow>
   call_tool e request startTime endTime ''endpoint'' arguments =
     ([], Inl (McpError InvalidParams ''Invalid test endpoint arguments''))"
  by (simp add: call_tool_def)

lemma call_tool_responded:
  "isValidEndpointArgs arguments \<Longrightarrow>
   request (request_config e arguments) = Responded response \<Longrightarrow>
   call_tool e request startTime endTime ''endpoint'' arguments =
     ([request_config e arguments],
      Inr \<lparr> text_json = success_envelope e (request_config e arguments) response startTime endTime,
            isError = False \<rparr>)"
  by (simp add: call_tool_def Let_def)

lemma call_tool_axios_error:
  "isValidEndpointArgs arguments \<Longrightarrow>
   request (request_config e arguments) = AxiosError message code \<Longrightarrow>
   call_tool e request startTime endTime ''endpoint'' arguments =
     ([request_config e arguments],
      Inr \<lparr> text_json = failure_envelope e (request_config e arguments) message code,
            isError = True \<rparr>)"
  by (simp add: call_tool_def Let_def)

lemma dispatched_cases:
  "dispatched (call_tool e request startTime endTime name arguments) =
     (if name = ''endpoint'' \<and> isValidEndpointArgs arguments then [request_config e arguments]
      else [])"
  by (simp add: call_tool_def dispatched_def Let_def split: outcome.splits)

subsection \<open>Rejected calls\<close>

lemma not_object_invalid:
  "(\<forall>ps. arguments \<noteq> JObj ps) \<Longrightarrow> \<not> isValidEndpointArgs arguments"
  by (cases arguments) (simp_all add: isValidEndpointArgs_def)

lemma bad_method_invalid:
  "get_prop arguments ''method'' \<notin> set [JStr ''GET'', JStr ''POST'', JStr ''PUT'', JStr ''DELETE'']
   \<Longrightarrow> \<not> isValidEndpointArgs arguments"
  by (simp add: isValidEndpointArgs_def)

lemma bad_endpoint_invalid:
  "typeof (get_prop arguments ''endpoint'') \<noteq> ''string'' \<Longrightarrow> \<not> isValidEndpointArgs arguments"
  by (simp add: isValidEndpointArgs_def)

text \<open>
  C8. A call whose tool name is not \<^verbatim>\<open>endpoint\<close> throws a MethodNotFound error. A call of
  the tool whose method is none of GET, POST, PUT and DELETE, whose arguments are not an
  object, or whose endpoint is not a string throws an InvalidParams error. In both cases
  no configuration is handed to the HTTP client. (The name is checked first: a call with
  both defects throws MethodNotFound.)
\<close>

theorem invalid_calls_rejected_before_dispatch:
  "(name \<noteq> ''endpoint'' \<longrightarrow>
      call_tool e request startTime endTime name arguments =
        ([], Inl (McpError MethodNotFound (''Unknown tool: '' @ name)))
      \<and> dispatched (call_tool e request startTime endTime name arguments) = [])
   \<and> ((get_prop arguments ''method'' \<notin> set [JStr ''GET'', JStr ''POST'', JStr ''PUT'', JStr ''DELETE'']
        \<or> (\<forall>ps. arguments \<noteq> JObj ps)
        \<or> typeof (get_prop arguments ''endpoint'') \<noteq> ''string'') \<longrightarrow>
      call_tool e request startTime endTime ''endpoint'' arguments =
        ([], Inl (McpError InvalidParams ''Invalid test endpoint arguments''))
      \<and> dispatched (call_tool e request startTime endTime name arguments) = []
      \<and> (\<exists>code message.
            snd (call_tool e request startTime endTime name arguments) = Inl (McpError code message)))"
proof (intro conjI impI)
  assume other: "name \<noteq> ''endpoint''"
  then show "call_tool e request startTime endTime name arguments =
        ([], Inl (McpError MethodNotFound (''Unknown tool: '' @ name)))"
    by (rule call_tool_unknown_tool)
  from other show "dispatched (call_tool e request startTime endTime name arguments) = []"
    by (simp add: dispatched_cases)
next
  assume "get_prop arguments ''method'' \<notin> set [JStr ''GET'', JStr ''POST'', JStr ''PUT'', JStr ''DELETE'']
        \<or> (\<forall>ps. arguments \<noteq> JObj ps)
        \<or> typeof (get_prop arguments ''endpoint'') \<noteq> ''string''"
  then have inv: "\<not> isValidEndpointArgs arguments"
    using not_object_invalid bad_method_invalid bad_endpoint_invalid by blast
  then show "call_tool e request startTime endTime ''endpoint'' arguments =
        ([], Inl (McpError InvalidParams ''Invalid test endpoint arguments''))"
    by (rule call_tool_invalid_args)
  from inv show "dispatched (call_tool e request startTime endTime name arguments) = []"
    by (simp add: dispatched_cases)
  from inv show "\<exists>code message.
            snd (call_tool e request startTime endTime name arguments) = Inl (McpError code message)"
    by (simp add: call_tool_def)
qed

theorem invalid_calls_rejected_before_dispatch_witness:
  "call_tool
     \<lparr>REST_BASE_URL = ''http://api.test'', AUTH_BASIC_USERNAME = None,
      AUTH_BASIC_PASSWORD = None, AUTH_BEARER = None,
      AUTH_APIKEY_HEADER_NAME = None, AUTH_APIKEY_VALUE = None\<rparr>
     (\<lambda>c. AxiosError ''unreachable'' None) 0 0 ''endpoint''
     (JObj [(''method'', JStr ''PATCH''), (''endpoint'', JStr ''/users'')])
   = ([], Inl (McpError InvalidParams ''Invalid test endpoint arguments''))
   \<and> call_tool
     \<lparr>REST_BASE_URL = ''http://api.test'', AUTH_BASIC_USERNAME = None,
      AUTH_BASIC_PASSWORD = None, AUTH_BEARER = None,
      AUTH_APIKEY_HEADER_NAME = None, AUTH_APIKEY_VALUE = None\<rparr>
     (\<lambda>c. AxiosError ''unreachable'' None) 0 0 ''fetch''
     (JObj [(''method'', JStr ''GET''), (''endpoint'', JStr ''/users'')])
   = ([], Inl (McpError MethodNotFound ''Unknown tool: fetch''))"
  using
    invalid_calls_rejected_before_dispatch
      [where name = "''endpoint''"
         and arguments = "JObj [(''method'', JStr ''PATCH''), (''endpoint'', JStr ''/users'')]"
         and e = "\<lparr>REST_BASE_URL = ''http://api.test'', AUTH_BASIC_USERNAME = None,
            AUTH_BASIC_PASSWORD = None, AUTH_BEARER = None,
            AUTH_APIKEY_HEADER_NAME = None, AUTH_APIKEY_VALUE = None\<rparr>"
         and request = "\<lambda>c. AxiosError ''unreachable'' None"
         and startTime = 0 and endTime = 0]
    invalid_calls_rejected_before_dispatch
      [where name = "''fetch''"
         and arguments = "JObj [(''method'', JStr ''GET''), (''endpoint'', JStr ''/users'')]"
         and e = "\<lparr>REST_BASE_URL = ''http://api.test'', AUTH_BASIC_USERNAME = None,
            AUTH_BASIC_PASSWORD = None, AUTH_BEARER = None,
            AUTH_APIKEY_HEADER_NAME = None, AUTH_APIKEY_VALUE = None\<rparr>"
         and request = "\<lambda>c. AxiosError ''unreachable'' None"
         and startTime = 0 and endTime = 0]
  by simp

subsection \<open>The validation part of the envelope\<close>

lemma failed_message_differs:
  "''Request failed with status '' @ digits \<noteq> ''Request completed successfully''"
  by simp

text \<open>
  C2. Whenever the HTTP client answers with a response, whatever its status code, the
  handler returns the success envelope, and in it \<^verbatim>\<open>validation.isError\<close> is true exactly
  when the status code is at least 400, \<^verbatim>\<open>validation.messages\<close> is
  \<^verbatim>\<open>["Request failed with status <code>"]\<close> exactly when \<^verbatim>\<open>isError\<close> is true, and
  \<^verbatim>\<open>["Request completed successfully"]\<close> otherwise.
\<close>

theorem validation_reflects_status:
  assumes "isValidEndpointArgs arguments"
    and "request (request_config e arguments) = Responded response"
  shows
    "let r = call_tool e request startTime endTime ''endpoint'' arguments;
         validation = get_prop (returned_json r) ''validation''
     in snd r = Inr \<lparr> text_json = returned_json r, isError = False \<rparr>
        \<and> returned_json r =
            success_envelope e (request_config e arguments) response startTime endTime
        \<and> validation =
            JObj [(''isError'', JBool (400 \<le> status response)),
                  (''messages'', JArr
                    [JStr (if 400 \<le> status response
                           then ''Request failed with status '' @ show_nat (status response)
                           else ''Request completed successfully'')])]
        \<and> (get_prop validation ''isError'' = JBool True) = (400 \<le> status response)
        \<and> (get_prop validation ''messages'' =
              JArr [JStr (''Request failed with status '' @ show_nat (status response))])
            = (get_prop validation ''isError'' = JBool True)
        \<and> (get_prop validation ''messages'' = JArr [JStr ''Request completed successfully''])
            = (get_prop validation ''isError'' \<noteq> JBool True)"
  using assms
  by (simp add: call_tool_responded returned_json_def success_envelope_def Let_def
      failed_message_differs)

theorem validation_reflects_status_witness:
  "get_prop (returned_json
      (call_tool
         \<lparr>REST_BASE_URL = ''http://api.test'', AUTH_BASIC_USERNAME = None,
          AUTH_BASIC_PASSWORD = None, AUTH_BEARER = None,
          AUTH_APIKEY_HEADER_NAME = None, AUTH_APIKEY_VALUE = None\<rparr>
         (\<lambda>c. Responded \<lparr>status = 404, statusText = ''Not Found'',
                response_headers = JObj [], response_data = JStr ''missing''\<rparr>)
         10 25 ''endpoint''
         (JObj [(''method'', JStr ''GET''), (''endpoint'', JStr ''users/7'')])))
     ''validation''
   = JObj [(''isError'', JBool True),
           (''messages'', JArr [JStr ''Request failed with status 404''])]"
  using validation_reflects_status
    [where arguments = "JObj [(''method'', JStr ''GET''), (''endpoint'', JStr ''users/7'')]"
       and request = "\<lambda>c. Responded \<lparr>status = 404, statusText = ''Not Found'',
                response_headers = JObj [], response_data = JStr ''missing''\<rparr>"
       and e = "\<lparr>REST_BASE_URL = ''http://api.test'', AUTH_BASIC_USERNAME = None,
          AUTH_BASIC_PASSWORD = None, AUTH_BEARER = None,
          AUTH_APIKEY_HEADER_NAME = None, AUTH_APIKEY_VALUE = None\<rparr>"
       and response = "\<lparr>status = 404, statusText = ''Not Found'',
                response_headers = JObj [], response_data = JStr ''missing''\<rparr>"
       and startTime = 10 and endTime = 25]
  by (simp add: isValidEndpointArgs_def Let_def success_envelope_def show_nat.simps digit_char_def)

subsection \<open>The request body\<close>

lemma request_config_data:
  "data (request_config e arguments) =
     (if get_prop arguments ''method'' \<in> set [JStr ''POST'', JStr ''PUT'']
         \<and> truthy (get_prop arguments ''body'')
      then Some (get_prop arguments ''body'') else None)"
  by (simp add: request_config_def add_auth_def add_body_def initial_config_def Let_def)

lemma request_config_method:
  "method_cfg (request_config e arguments) = get_prop arguments ''method''"
  by (simp add: request_config_def add_auth_def add_body_def initial_config_def Let_def)

lemma truthy_defined: "truthy v \<Longrightarrow> v \<noteq> JUndefined"
  by (cases v) simp_all

text \<open>
  C7. Every configuration the handler hands to the HTTP client carries a body only when
  the method is POST or PUT and the caller supplied a body (the body it carries is then
  the caller's); when the method is GET or DELETE it carries none, whatever \<^verbatim>\<open>body\<close> the
  arguments hold.
\<close>

theorem body_only_for_post_and_put:
  "\<forall>config \<in> set (dispatched (call_tool e request startTime endTime name arguments)).
     method_cfg config = get_prop arguments ''method''
     \<and> (data config \<noteq> None \<longrightarrow>
          get_prop arguments ''method'' \<in> set [JStr ''POST'', JStr ''PUT'']
          \<and> get_prop arguments ''body'' \<noteq> JUndefined
          \<and> data config = Some (get_prop arguments ''body''))
     \<and> (get_prop arguments ''method'' \<in> set [JStr ''GET'', JStr ''DELETE''] \<longrightarrow>
          data config = None)"
proof
  fix config
  assume "config \<in> set (dispatched (call_tool e request startTime endTime name arguments))"
  then have config: "config = request_config e arguments"
    by (simp add: dispatched_cases split: if_splits)
  have "method_cfg config = get_prop arguments ''method''"
    unfolding config by (rule request_config_method)
  moreover have "data config \<noteq> None \<longrightarrow>
          get_prop arguments ''method'' \<in> set [JStr ''POST'', JStr ''PUT'']
          \<and> get_prop arguments ''body'' \<noteq> JUndefined
          \<and> data config = Some (get_prop arguments ''body'')"
    unfolding config request_config_data using truthy_defined by auto
  moreover have "get_prop arguments ''method'' \<in> set [JStr ''GET'', JStr ''DELETE''] \<longrightarrow>
          data config = None"
    unfolding config request_config_data by auto
  ultimately show "method_cfg config = get_prop arguments ''method''
     \<and> (data config \<noteq> None \<longrightarrow>
          get_prop arguments ''method'' \<in> set [JStr ''POST'', JStr ''PUT'']
          \<and> get_prop arguments ''body'' \<noteq> JUndefined
          \<and> data config = Some (get_prop arguments ''body''))
     \<and> (get_prop arguments ''method'' \<in> set [JStr ''GET'', JStr ''DELETE''] \<longrightarrow>
          data config = None)"
    by blast
qed

theorem body_only_for_post_and_put_witness:
  "dispatched
     (call_tool
        \<lparr>REST_BASE_URL = ''http://api.test'', AUTH_BASIC_USERNAME = None,
         AUTH_BASIC_PASSWORD = None, AUTH_BEARER = None,
         AUTH_APIKEY_HEADER_NAME = None, AUTH_APIKEY_VALUE = None\<rparr>
        (\<lambda>c. AxiosError ''unreachable'' None) 0 0 ''endpoint''
        (JObj [(''method'', JStr ''DELETE''), (''endpoint'', JStr ''/users/7''),
               (''body'', JObj [(''force'', JBool True)])]))
   = [\<lparr>method_cfg = JStr ''DELETE'', url = ''/users/7'', headers = JObj [], data = None\<rparr>]
   \<and> dispatched
     (call_tool
        \<lparr>REST_BASE_URL = ''http://api.test'', AUTH_BASIC_USERNAME = None,
         AUTH_BASIC_PASSWORD = None, AUTH_BEARER = None,
         AUTH_APIKEY_HEADER_NAME = None, AUTH_APIKEY_VALUE = None\<rparr>
        (\<lambda>c. AxiosError ''unreachable'' None) 0 0 ''endpoint''
        (JObj [(''method'', JStr ''POST''), (''endpoint'', JStr ''/users''),
               (''body'', JObj [(''name'', JStr ''Ada'')])]))
   = [\<lparr>method_cfg = JStr ''POST'', url = ''/users'', headers = JObj [],
       data = Some (JObj [(''name'', JStr ''Ada'')])\<rparr>]"
  using
    body_only_for_post_and_put
      [where arguments = "JObj [(''method'', JStr ''DELETE''), (''endpoint'', JStr ''/users/7''),
               (''body'', JObj [(''force'', JBool True)])]"
         and request = "\<lambda>c. AxiosError ''unreachable'' None"
         and e = "\<lparr>REST_BASE_URL = ''http://api.test'', AUTH_BASIC_USERNAME = None,
           AUTH_BASIC_PASSWORD = None, AUTH_BEARER = None,
           AUTH_APIKEY_HEADER_NAME = None, AUTH_APIKEY_VALUE = None\<rparr>"
         and name = "''endpoint''" and startTime = 0 and endTime = 0]
    body_only_for_post_and_put
      [where arguments = "JObj [(''method'', JStr ''POST''), (''endpoint'', JStr ''/users''),
               (''body'', JObj [(''name'', JStr ''Ada'')])]"
         and request = "\<lambda>c. AxiosError ''unreachable'' None"
         and e = "\<lparr>REST_BASE_URL = ''http://api.test'', AUTH_BASIC_USERNAME = None,
           AUTH_BASIC_PASSWORD = None, AUTH_BEARER = None,
           AUTH_APIKEY_HEADER_NAME = None, AUTH_APIKEY_VALUE = None\<rparr>"
         and name = "''endpoint''" and startTime = 0 and endTime = 0]
  by (simp add: dispatched_cases isValidEndpointArgs_def request_config_def add_auth_def
      add_body_def initial_config_def hasBasicAuth_def hasBearerAuth_def hasApiKeyAuth_def
      normalizedEndpoint_def replace_slashes_def)

subsection \<open>The shape of the success envelope\<close>

lemma digit_char_is_digit: "d < 10 \<Longrightarrow> digit_char d \<in> set ''0123456789''"
  unfolding digit_char_def by (rule nth_mem) simp

lemma show_nat_digits: "set (show_nat n) \<subseteq> set ''0123456789''"
proof (induction n rule: show_nat.induct)
  case (1 n)
  show ?case
  proof (cases "n < 10")
    case True
    then show ?thesis
      using digit_char_is_digit [of n] by (subst show_nat.simps) simp
  next
    case False
    have "n mod 10 < 10" by simp
    then have "digit_char (n mod 10) \<in> set ''0123456789''"
      by (rule digit_char_is_digit)
    with False "1.IH" show ?thesis
      by (subst show_nat.simps) simp
  qed
qed

lemma show_nat_no_sign: "CHR ''-'' \<notin> set (show_nat n)"
  using show_nat_digits [of n] by auto

lemma show_int_nonneg: "0 \<le> i \<Longrightarrow> show_int i = show_nat (nat i)"
  by (simp add: show_int_def)

text \<open>
  C9, as the code has it. After a response, the serialised value has exactly the
  top-level properties \<^verbatim>\<open>request\<close>, \<^verbatim>\<open>response\<close> and \<^verbatim>\<open>validation\<close>. The properties of
  \<^verbatim>\<open>response\<close> are \<^verbatim>\<open>statusCode\<close>, \<^verbatim>\<open>statusText\<close>, \<^verbatim>\<open>timing\<close>, \<^verbatim>\<open>headers\<close> and \<^verbatim>\<open>body\<close>
  (all five are written when the client's response has headers and data). \<^verbatim>\<open>timing\<close> is
  the text of \<open>endTime - startTime\<close> followed by \<^verbatim>\<open>ms\<close>; when the second clock reading is
  not earlier than the first, that text is the decimal form of a natural number, without
  a sign.
\<close>

theorem success_envelope_shape:
  assumes "isValidEndpointArgs arguments"
    and "request (request_config e arguments) = Responded response"
  shows
    "let envelope = returned_json (call_tool e request startTime endTime ''endpoint'' arguments);
         resp = get_prop envelope ''response''
     in json_keys envelope = [''request'', ''response'', ''validation'']
        \<and> map fst (spread resp) = [''statusCode'', ''statusText'', ''timing'', ''headers'', ''body'']
        \<and> get_prop resp ''statusCode'' = JNum (of_nat (status response))
        \<and> get_prop resp ''statusText'' = JStr (statusText response)
        \<and> get_prop resp ''headers'' = response_headers response
        \<and> get_prop resp ''body'' = response_data response
        \<and> get_prop resp ''timing'' = JStr (show_int (endTime - startTime) @ ''ms'')
        \<and> (startTime \<le> endTime \<longrightarrow>
             get_prop resp ''timing'' = JStr (show_nat (nat (endTime - startTime)) @ ''ms'')
             \<and> CHR ''-'' \<notin> set (show_nat (nat (endTime - startTime))))
        \<and> (response_headers response \<noteq> JUndefined \<and> response_data response \<noteq> JUndefined \<longrightarrow>
             json_keys resp = [''statusCode'', ''statusText'', ''timing'', ''headers'', ''body''])"
  using assms
  by (simp add: call_tool_responded returned_json_def success_envelope_def Let_def
      show_int_nonneg show_nat_no_sign)

theorem success_envelope_shape_witness:
  "get_prop (returned_json
      (call_tool
         \<lparr>REST_BASE_URL = ''http://api.test'', AUTH_BASIC_USERNAME = None,
          AUTH_BASIC_PASSWORD = None, AUTH_BEARER = None,
          AUTH_APIKEY_HEADER_NAME = None, AUTH_APIKEY_VALUE = None\<rparr>
         (\<lambda>c. Responded \<lparr>status = 200, statusText = ''OK'',
                response_headers = JObj [(''content-type'', JStr ''text/plain'')],
                response_data = JStr ''pong''\<rparr>)
         1000 1042 ''endpoint''
         (JObj [(''method'', JStr ''GET''), (''endpoint'', JStr ''/ping'')])))
     ''response''
   = JObj [(''statusCode'', JNum 200), (''statusText'', JStr ''OK''),
           (''timing'', JStr ''42ms''),
           (''headers'', JObj [(''content-type'', JStr ''text/plain'')]),
           (''body'', JStr ''pong'')]"
  using success_envelope_shape
    [where arguments = "JObj [(''method'', JStr ''GET''), (''endpoint'', JStr ''/ping'')]"
       and request = "\<lambda>c. Responded \<lparr>status = 200, statusText = ''OK'',
                response_headers = JObj [(''content-type'', JStr ''text/plain'')],
                response_data = JStr ''pong''\<rparr>"
       and e = "\<lparr>REST_BASE_URL = ''http://api.test'', AUTH_BASIC_USERNAME = None,
          AUTH_BASIC_PASSWORD = None, AUTH_BEARER = None,
          AUTH_APIKEY_HEADER_NAME = None, AUTH_APIKEY_VALUE = None\<rparr>"
       and response = "\<lparr>status = 200, statusText = ''OK'',
                response_headers = JObj [(''content-type'', JStr ''text/plain'')],
                response_data = JStr ''pong''\<rparr>"
       and startTime = 1000 and endTime = 1042]
  by (simp add: isValidEndpointArgs_def Let_def call_tool_def returned_json_def
      success_envelope_def show_int_def show_nat.simps digit_char_def)

text \<open>
  C9 as stated fails: the response part has no property \<^verbatim>\<open>timingMs\<close> (the property is
  \<^verbatim>\<open>timing\<close>, a text), and with clock readings 5 and then 3 the timing is \<^verbatim>\<open>-2ms\<close>.
\<close>

theorem success_envelope_timing_counterexample:
  "get_prop
     (get_prop (returned_json
        (call_tool
           \<lparr>REST_BASE_URL = ''http://api.test'', AUTH_BASIC_USERNAME = None,
            AUTH_BASIC_PASSWORD = None, AUTH_BEARER = None,
            AUTH_APIKEY_HEADER_NAME = None, AUTH_APIKEY_VALUE = None\<rparr>
           (\<lambda>c. Responded \<lparr>status = 200, statusText = ''OK'',
                  response_headers = JObj [], response_data = JStr ''pong''\<rparr>)
           5 3 ''endpoint''
           (JObj [(''method'', JStr ''GET''), (''endpoint'', JStr ''/ping'')])))
        ''response'')
     ''timingMs'' = JUndefined
   \<and> get_prop
     (get_prop (returned_json
        (call_tool
           \<lparr>REST_BASE_URL = ''http://api.test'', AUTH_BASIC_USERNAME = None,
            AUTH_BASIC_PASSWORD = None, AUTH_BEARER = None,
            AUTH_APIKEY_HEADER_NAME = None, AUTH_APIKEY_VALUE = None\<rparr>
           (\<lambda>c. Responded \<lparr>status = 200, statusText = ''OK'',
                  response_headers = JObj [], response_data = JStr ''pong''\<rparr>)
           5 3 ''endpoint''
           (JObj [(''method'', JStr ''GET''), (''endpoint'', JStr ''/ping'')])))
        ''response'')
     ''timing'' = JStr ''-2ms''"
  by (simp add: isValidEndpointArgs_def Let_def call_tool_def returned_json_def
      success_envelope_def show_int_def show_nat.simps digit_char_def)

subsection \<open>The shape of the failure envelope\<close>

text \<open>
  C1, as the code has it. When the HTTP client fails with an error that
  \<^verbatim>\<open>axios.isAxiosError\<close> recognises, the handler returns a result flagged \<^verbatim>\<open>isError\<close>
  whose serialised value has the single top-level property \<^verbatim>\<open>error\<close>. That object holds
  \<^verbatim>\<open>message\<close>, \<^verbatim>\<open>code\<close> and, nested inside it, \<^verbatim>\<open>request\<close>: the url, method, headers and
  body of the configuration that was handed to the client, authentication header
  included.
\<close>

theorem transport_failure_envelope:
  assumes "isValidEndpointArgs arguments"
    and "request (request_config e arguments) = AxiosError message code"
  shows
    "let r = call_tool e request startTime endTime ''endpoint'' arguments;
         config = request_config e arguments;
         err = get_prop (returned_json r) ''error''
     in dispatched r = [config]
        \<and> snd r = Inr \<lparr> text_json = returned_json r, isError = True \<rparr>
        \<and> json_keys (returned_json r) = [''error'']
        \<and> map fst (spread err) = [''message'', ''code'', ''request'']
        \<and> get_prop err ''message'' = JStr message
        \<and> get_prop err ''code'' = var_value code
        \<and> get_prop err ''request'' =
            JObj [(''url'', JStr (REST_BASE_URL e @ url config)),
                  (''method'', method_cfg config),
                  (''headers'', headers config),
                  (''body'', data_value config)]"
  using assms
  by (simp add: call_tool_axios_error dispatched_def returned_json_def failure_envelope_def
      Let_def)

theorem transport_failure_envelope_witness:
  "returned_json
     (call_tool
        \<lparr>REST_BASE_URL = ''http://api.test'', AUTH_BASIC_USERNAME = None,
         AUTH_BASIC_PASSWORD = None, AUTH_BEARER = Some ''t0ken'',
         AUTH_APIKEY_HEADER_NAME = None, AUTH_APIKEY_VALUE = None\<rparr>
        (\<lambda>c. AxiosError ''connect ECONNREFUSED'' (Some ''ECONNREFUSED'')) 0 0 ''endpoint''
        (JObj [(''method'', JStr ''GET''), (''endpoint'', JStr ''/users'')]))
   = JObj [(''error'', JObj
       [(''message'', JStr ''connect ECONNREFUSED''),
        (''code'', JStr ''ECONNREFUSED''),
        (''request'', JObj
          [(''url'', JStr ''http://api.test/users''),
           (''method'', JStr ''GET''),
           (''headers'', JObj [(''Authorization'', JStr ''Bearer t0ken'')]),
           (''body'', JUndefined)])])]"
  using transport_failure_envelope
    [where arguments = "JObj [(''method'', JStr ''GET''), (''endpoint'', JStr ''/users'')]"
       and request = "\<lambda>c. AxiosError ''connect ECONNREFUSED'' (Some ''ECONNREFUSED'')"
       and e = "\<lparr>REST_BASE_URL = ''http://api.test'', AUTH_BASIC_USERNAME = None,
         AUTH_BASIC_PASSWORD = None, AUTH_BEARER = Some ''t0ken'',
         AUTH_APIKEY_HEADER_NAME = None, AUTH_APIKEY_VALUE = None\<rparr>"
       and message = "''connect ECONNREFUSED''" and code = "Some ''ECONNREFUSED''"
       and startTime = 0 and endTime = 0]
  by (simp add: isValidEndpointArgs_def Let_def call_tool_def returned_json_def
      failure_envelope_def request_config_def add_auth_def add_body_def initial_config_def
      hasBasicAuth_def hasBearerAuth_def hasApiKeyAuth_def overlay_def data_value_def
      normalizedEndpoint_def replace_slashes_def)

text \<open>
  C1 as stated fails: after a refused connection the serialised value has no top-level
  property \<^verbatim>\<open>request\<close>; its only top-level property is \<^verbatim>\<open>error\<close>.
\<close>

theorem transport_failure_request_counterexample:
  "get_prop
     (returned_json
        (call_tool
           \<lparr>REST_BASE_URL = ''http://api.test'', AUTH_BASIC_USERNAME = None,
            AUTH_BASIC_PASSWORD = None, AUTH_BEARER = Some ''t0ken'',
            AUTH_APIKEY_HEADER_NAME = None, AUTH_APIKEY_VALUE = None\<rparr>
           (\<lambda>c. AxiosError ''connect ECONNREFUSED'' (Some ''ECONNREFUSED'')) 0 0 ''endpoint''
           (JObj [(''method'', JStr ''GET''), (''endpoint'', JStr ''/users'')])))
     ''request'' = JUndefined
   \<and> json_keys
     (returned_json
        (call_tool
           \<lparr>REST_BASE_URL = ''http://api.test'', AUTH_BASIC_USERNAME = None,
            AUTH_BASIC_PASSWORD = None, AUTH_BEARER = Some ''t0ken'',
            AUTH_APIKEY_HEADER_NAME = None, AUTH_APIKEY_VALUE = None\<rparr>
           (\<lambda>c. AxiosError ''connect ECONNREFUSED'' (Some ''ECONNREFUSED'')) 0 0 ''endpoint''
           (JObj [(''method'', JStr ''GET''), (''endpoint'', JStr ''/users'')])))
     = [''error'']"
  by (simp add: isValidEndpointArgs_def Let_def call_tool_def returned_json_def
      failure_envelope_def)

subsection \<open>Headers that are not a map of strings\<close>

text \<open>
  C3 does not hold of the code. \<open>isValidEndpointArgs\<close> only tests that \<^verbatim>\<open>typeof\<close> of
  \<^verbatim>\<open>headers\<close> is \<^verbatim>\<open>'object'\<close>, so the handler accepts headers that are an array,
  \<^verbatim>\<open>null\<close>, or an object with a value that is not a string, and hands the request to
  the HTTP client: with no authentication configured, an array of headers is itself the
  \<^verbatim>\<open>headers\<close> of the dispatched configuration.
\<close>

theorem headers_not_string_map_accepted:
  "dispatched
     (call_tool
        \<lparr>REST_BASE_URL = ''http://api.test'', AUTH_BASIC_USERNAME = None,
         AUTH_BASIC_PASSWORD = None, AUTH_BEARER = None,
         AUTH_APIKEY_HEADER_NAME = None, AUTH_APIKEY_VALUE = None\<rparr>
        (\<lambda>c. AxiosError ''unreachable'' None) 0 0 ''endpoint''
        (JObj [(''method'', JStr ''GET''), (''endpoint'', JStr ''/users''),
               (''headers'', JArr [JStr ''x''])]))
     = [\<lparr>method_cfg = JStr ''GET'', url = ''/users'', headers = JArr [JStr ''x''],
         data = None\<rparr>]
   \<and> dispatched
     (call_tool
        \<lparr>REST_BASE_URL = ''http://api.test'', AUTH_BASIC_USERNAME = None,
         AUTH_BASIC_PASSWORD = None, AUTH_BEARER = None,
         AUTH_APIKEY_HEADER_NAME = None, AUTH_APIKEY_VALUE = None\<rparr>
        (\<lambda>c. AxiosError ''unreachable'' None) 0 0 ''endpoint''
        (JObj [(''method'', JStr ''GET''), (''endpoint'', JStr ''/users''),
               (''headers'', JNull)]))
     = [\<lparr>method_cfg = JStr ''GET'', url = ''/users'', headers = JObj [], data = None\<rparr>]
   \<and> dispatched
     (call_tool
        \<lparr>REST_BASE_URL = ''http://api.test'', AUTH_BASIC_USERNAME = None,
         AUTH_BASIC_PASSWORD = None, AUTH_BEARER = None,
         AUTH_APIKEY_HEADER_NAME = None, AUTH_APIKEY_VALUE = None\<rparr>
        (\<lambda>c. AxiosError ''unreachable'' None) 0 0 ''endpoint''
        (JObj [(''method'', JStr ''GET''), (''endpoint'', JStr ''/users''),
               (''headers'', JObj [(''X-Count'', JNum 1)])]))
     = [\<lparr>method_cfg = JStr ''GET'', url = ''/users'',
         headers = JObj [(''X-Count'', JNum 1)], data = None\<rparr>]"
  by (simp add: isValidEndpointArgs_def dispatched_cases request_config_def add_auth_def
      add_body_def initial_config_def hasBasicAuth_def hasBearerAuth_def hasApiKeyAuth_def
      normalizedEndpoint_def replace_slashes_def)

subsection \<open>The authentication mode\<close>

lemma truthy_var_iff: "truthy_var v = (\<exists>s. v = Some s \<and> s \<noteq> [])"
  by (cases v) simp_all

text \<open>
  C4. Whatever the credential variables hold, the handler is in exactly one of the modes
  basic, bearer, apikey and none, the first in this order whose check succeeds. Basic
  needs both the user name and the password, apikey both the header name and the value;
  a pair with one half missing does not activate its mode. The header the handler adds
  follows the same mode.
\<close>

theorem auth_mode_precedence:
  "authMethod e \<in> set [''basic'', ''bearer'', ''apikey'', ''none'']
   \<and> (authMethod e = ''basic'') = hasBasicAuth e
   \<and> (authMethod e = ''bearer'') = (\<not> hasBasicAuth e \<and> hasBearerAuth e)
   \<and> (authMethod e = ''apikey'') = (\<not> hasBasicAuth e \<and> \<not> hasBearerAuth e \<and> hasApiKeyAuth e)
   \<and> (authMethod e = ''none'') = (\<not> hasBasicAuth e \<and> \<not> hasBearerAuth e \<and> \<not> hasApiKeyAuth e)
   \<and> hasBasicAuth e =
       (\<exists>u p. AUTH_BASIC_USERNAME e = Some u \<and> u \<noteq> [] \<and> AUTH_BASIC_PASSWORD e = Some p \<and> p \<noteq> [])
   \<and> hasBearerAuth e = (\<exists>t. AUTH_BEARER e = Some t \<and> t \<noteq> [])
   \<and> hasApiKeyAuth e =
       (\<exists>k v. AUTH_APIKEY_HEADER_NAME e = Some k \<and> k \<noteq> [] \<and> AUTH_APIKEY_VALUE e = Some v \<and> v \<noteq> [])
   \<and> (AUTH_BASIC_USERNAME e = None \<or> AUTH_BASIC_PASSWORD e = None \<longrightarrow> authMethod e \<noteq> ''basic'')
   \<and> (AUTH_APIKEY_HEADER_NAME e = None \<or> AUTH_APIKEY_VALUE e = None \<longrightarrow> authMethod e \<noteq> ''apikey'')
   \<and> add_auth e config =
       (if authMethod e = ''basic'' then
          config\<lparr>headers := overlay ''Authorization''
            (JStr (''Basic '' @ base64 (var_text (AUTH_BASIC_USERNAME e) @ '':'' @
                                         var_text (AUTH_BASIC_PASSWORD e))))
            (headers config)\<rparr>
        else if authMethod e = ''bearer'' then
          config\<lparr>headers := overlay ''Authorization''
            (JStr (''Bearer '' @ var_text (AUTH_BEARER e))) (headers config)\<rparr>
        else if authMethod e = ''apikey'' then
          config\<lparr>headers := overlay (var_text (AUTH_APIKEY_HEADER_NAME e))
            (var_value (AUTH_APIKEY_VALUE e)) (headers config)\<rparr>
        else config)"
proof -
  have mode: "authMethod e \<in> set [''basic'', ''bearer'', ''apikey'', ''none'']"
    "(authMethod e = ''basic'') = hasBasicAuth e"
    "(authMethod e = ''bearer'') = (\<not> hasBasicAuth e \<and> hasBearerAuth e)"
    "(authMethod e = ''apikey'') = (\<not> hasBasicAuth e \<and> \<not> hasBearerAuth e \<and> hasApiKeyAuth e)"
    "(authMethod e = ''none'') = (\<not> hasBasicAuth e \<and> \<not> hasBearerAuth e \<and> \<not> hasApiKeyAuth e)"
    by (simp_all add: authMethod_def)
  have checks:
    "hasBasicAuth e =
       (\<exists>u p. AUTH_BASIC_USERNAME e = Some u \<and> u \<noteq> [] \<and> AUTH_BASIC_PASSWORD e = Some p \<and> p \<noteq> [])"
    "hasBearerAuth e = (\<exists>t. AUTH_BEARER e = Some t \<and> t \<noteq> [])"
    "hasApiKeyAuth e =
       (\<exists>k v. AUTH_APIKEY_HEADER_NAME e = Some k \<and> k \<noteq> [] \<and> AUTH_APIKEY_VALUE e = Some v \<and> v \<noteq> [])"
    by (auto simp: hasBasicAuth_def hasBearerAuth_def hasApiKeyAuth_def truthy_var_iff)
  have partial:
    "AUTH_BASIC_USERNAME e = None \<or> AUTH_BASIC_PASSWORD e = None \<longrightarrow> authMethod e \<noteq> ''basic''"
    "AUTH_APIKEY_HEADER_NAME e = None \<or> AUTH_APIKEY_VALUE e = None \<longrightarrow> authMethod e \<noteq> ''apikey''"
    using mode(2,4) checks(1,3) by auto
  have inject: "add_auth e config =
       (if authMethod e = ''basic'' then
          config\<lparr>headers := overlay ''Authorization''
            (JStr (''Basic '' @ base64 (var_text (AUTH_BASIC_USERNAME e) @ '':'' @
                                         var_text (AUTH_BASIC_PASSWORD e))))
            (headers config)\<rparr>
        else if authMethod e = ''bearer'' then
          config\<lparr>headers := overlay ''Authorization''
            (JStr (''Bearer '' @ var_text (AUTH_BEARER e))) (headers config)\<rparr>
        else if authMethod e = ''apikey'' then
          config\<lparr>headers := overlay (var_text (AUTH_APIKEY_HEADER_NAME e))
            (var_value (AUTH_APIKEY_VALUE e)) (headers config)\<rparr>
        else config)"
    unfolding mode(2,3,4) by (simp add: add_auth_def Let_def)
  from mode checks partial inject show ?thesis by blast
qed

theorem auth_mode_precedence_witness:
  "authMethod
     \<lparr>REST_BASE_URL = ''http://api.test'', AUTH_BASIC_USERNAME = Some ''u'',
      AUTH_BASIC_PASSWORD = Some ''p'', AUTH_BEARER = Some ''t0ken'',
      AUTH_APIKEY_HEADER_NAME = Some ''X-API-Key'', AUTH_APIKEY_VALUE = Some ''k3y''\<rparr> = ''basic''
   \<and> add_auth
     \<lparr>REST_BASE_URL = ''http://api.test'', AUTH_BASIC_USERNAME = Some ''u'',
      AUTH_BASIC_PASSWORD = Some ''p'', AUTH_BEARER = Some ''t0ken'',
      AUTH_APIKEY_HEADER_NAME = Some ''X-API-Key'', AUTH_APIKEY_VALUE = Some ''k3y''\<rparr>
     \<lparr>method_cfg = JStr ''GET'', url = ''/users'', headers = JObj [], data = None\<rparr>
     = \<lparr>method_cfg = JStr ''GET'', url = ''/users'',
        headers = JObj [(''Authorization'', JStr ''Basic dTpw'')], data = None\<rparr>
   \<and> authMethod
     \<lparr>REST_BASE_URL = ''http://api.test'', AUTH_BASIC_USERNAME = Some ''u'',
      AUTH_BASIC_PASSWORD = None, AUTH_BEARER = None,
      AUTH_APIKEY_HEADER_NAME = Some ''X-API-Key'', AUTH_APIKEY_VALUE = Some ''k3y''\<rparr> = ''apikey''"
  using
    auth_mode_precedence
      [where e = "\<lparr>REST_BASE_URL = ''http://api.test'', AUTH_BASIC_USERNAME = Some ''u'',
          AUTH_BASIC_PASSWORD = Some ''p'', AUTH_BEARER = Some ''t0ken'',
          AUTH_APIKEY_HEADER_NAME = Some ''X-API-Key'', AUTH_APIKEY_VALUE = Some ''k3y''\<rparr>"
         and config = "\<lparr>method_cfg = JStr ''GET'', url = ''/users'', headers = JObj [],
          data = None\<rparr>"]
    auth_mode_precedence
      [where e = "\<lparr>REST_BASE_URL = ''http://api.test'', AUTH_BASIC_USERNAME = Some ''u'',
          AUTH_BASIC_PASSWORD = None, AUTH_BEARER = None,
          AUTH_APIKEY_HEADER_NAME = Some ''X-API-Key'', AUTH_APIKEY_VALUE = Some ''k3y''\<rparr>"
         and config = "\<lparr>method_cfg = JStr ''GET'', url = ''/users'', headers = JObj [],
          data = None\<rparr>"]
  by (simp add: hasBasicAuth_def hasBearerAuth_def hasApiKeyAuth_def overlay_def
      b64_char_def b64_alphabet_def)

subsection \<open>Caller headers and the authentication header\<close>

lemma overlay_sets_key: "get_prop (overlay k v h) k = v"
  by (simp add: overlay_def update_conv')

lemma overlay_keeps_others:
  "k' \<noteq> k \<Longrightarrow> map_of (spread (overlay k v h)) k' = map_of (spread h) k'"
  by (simp add: overlay_def update_conv')

lemma overlay_keys:
  "set (map fst (spread (overlay k v h))) = insert k (set (map fst (spread h)))"
  by (auto simp: overlay_def update_keys)

lemma overlay_distinct:
  "distinct (map fst (spread h)) \<Longrightarrow> distinct (map fst (spread (overlay k v h)))"
  by (simp add: overlay_def distinct_update)

lemma request_config_headers:
  "headers (request_config e arguments) =
     headers (add_auth e (initial_config arguments))"
  by (simp add: request_config_def add_auth_def add_body_def Let_def)

text \<open>
  C5. The headers of the outbound request are the caller's headers (an empty object when
  the caller gave none) with one authentication header laid over them according to the
  mode: the authentication header has its configured value whatever the caller sent
  under that name, every other caller header is kept, and no other name is added. In
  mode none the caller's headers are passed on unchanged.
\<close>

theorem auth_header_overlays_caller_headers:
  "let caller = (if truthy (get_prop arguments ''headers'') then get_prop arguments ''headers''
                 else JObj []);
       sent = headers (request_config e arguments);
       name = (if authMethod e = ''apikey'' then var_text (AUTH_APIKEY_HEADER_NAME e)
               else ''Authorization'');
       val = (if authMethod e = ''basic'' then
                JStr (''Basic '' @ base64 (var_text (AUTH_BASIC_USERNAME e) @ '':'' @
                                            var_text (AUTH_BASIC_PASSWORD e)))
              else if authMethod e = ''bearer'' then JStr (''Bearer '' @ var_text (AUTH_BEARER e))
              else var_value (AUTH_APIKEY_VALUE e))
   in (authMethod e = ''none'' \<longrightarrow> sent = caller)
      \<and> (authMethod e \<noteq> ''none'' \<longrightarrow>
           sent = overlay name val caller
           \<and> get_prop sent name = val
           \<and> (\<forall>k. k \<noteq> name \<longrightarrow> map_of (spread sent) k = map_of (spread caller) k)
           \<and> set (map fst (spread sent)) = insert name (set (map fst (spread caller)))
           \<and> (distinct (map fst (spread caller)) \<longrightarrow> distinct (map fst (spread sent))))"
proof -
  define caller where
    "caller = (if truthy (get_prop arguments ''headers'') then get_prop arguments ''headers''
               else JObj [])"
  define name where
    "name = (if authMethod e = ''apikey'' then var_text (AUTH_APIKEY_HEADER_NAME e)
             else ''Authorization'')"
  define val where
    "val = (if authMethod e = ''basic'' then
              JStr (''Basic '' @ base64 (var_text (AUTH_BASIC_USERNAME e) @ '':'' @
                                          var_text (AUTH_BASIC_PASSWORD e)))
            else if authMethod e = ''bearer'' then JStr (''Bearer '' @ var_text (AUTH_BEARER e))
            else var_value (AUTH_APIKEY_VALUE e))"
  have init: "headers (initial_config arguments) = caller"
    by (simp add: initial_config_def caller_def)
  have none: "authMethod e = ''none'' \<Longrightarrow> headers (request_config e arguments) = caller"
    by (simp add: request_config_headers add_auth_def authMethod_def init Let_def
        split: if_splits)
  have some: "authMethod e \<noteq> ''none'' \<Longrightarrow>
      headers (request_config e arguments) = overlay name val caller"
    by (simp add: request_config_headers add_auth_def authMethod_def init Let_def
        name_def val_def split: if_splits)
  have "authMethod e \<noteq> ''none'' \<longrightarrow>
      headers (request_config e arguments) = overlay name val caller
      \<and> get_prop (headers (request_config e arguments)) name = val
      \<and> (\<forall>k. k \<noteq> name \<longrightarrow>
            map_of (spread (headers (request_config e arguments))) k = map_of (spread caller) k)
      \<and> set (map fst (spread (headers (request_config e arguments)))) =
          insert name (set (map fst (spread caller)))
      \<and> (distinct (map fst (spread caller)) \<longrightarrow>
            distinct (map fst (spread (headers (request_config e arguments)))))"
    using some overlay_sets_key [of name val caller] overlay_keeps_others [of _ name val caller]
      overlay_keys [of name val caller] overlay_distinct [of caller name val]
    by simp
  with none show ?thesis
    unfolding Let_def caller_def [symmetric] name_def [symmetric] val_def [symmetric]
    by blast
qed

theorem auth_header_overlays_caller_headers_witness:
  "headers
     (request_config
        \<lparr>REST_BASE_URL = ''http://api.test'', AUTH_BASIC_USERNAME = None,
         AUTH_BASIC_PASSWORD = None, AUTH_BEARER = Some ''t0ken'',
         AUTH_APIKEY_HEADER_NAME = None, AUTH_APIKEY_VALUE = None\<rparr>
        (JObj [(''method'', JStr ''GET''), (''endpoint'', JStr ''/users''),
               (''headers'', JObj [(''Authorization'', JStr ''Bearer mine''),
                                   (''Accept'', JStr ''text/plain'')])]))
   = JObj [(''Authorization'', JStr ''Bearer t0ken''), (''Accept'', JStr ''text/plain'')]
   \<and> headers
     (request_config
        \<lparr>REST_BASE_URL = ''http://api.test'', AUTH_BASIC_USERNAME = None,
         AUTH_BASIC_PASSWORD = None, AUTH_BEARER = None,
         AUTH_APIKEY_HEADER_NAME = None, AUTH_APIKEY_VALUE = None\<rparr>
        (JObj [(''method'', JStr ''GET''), (''endpoint'', JStr ''/users''),
               (''headers'', JObj [(''Authorization'', JStr ''Bearer mine''),
                                   (''Accept'', JStr ''text/plain'')])]))
   = JObj [(''Authorization'', JStr ''Bearer mine''), (''Accept'', JStr ''text/plain'')]"
  using
    auth_header_overlays_caller_headers
      [where e = "\<lparr>REST_BASE_URL = ''http://api.test'', AUTH_BASIC_USERNAME = None,
           AUTH_BASIC_PASSWORD = None, AUTH_BEARER = Some ''t0ken'',
           AUTH_APIKEY_HEADER_NAME = None, AUTH_APIKEY_VALUE = None\<rparr>"
         and arguments = "JObj [(''method'', JStr ''GET''), (''endpoint'', JStr ''/users''),
               (''headers'', JObj [(''Authorization'', JStr ''Bearer mine''),
                                   (''Accept'', JStr ''text/plain'')])]"]
    auth_header_overlays_caller_headers
      [where e = "\<lparr>REST_BASE_URL = ''http://api.test'', AUTH_BASIC_USERNAME = None,
           AUTH_BASIC_PASSWORD = None, AUTH_BEARER = None,
           AUTH_APIKEY_HEADER_NAME = None, AUTH_APIKEY_VALUE = None\<rparr>"
         and arguments = "JObj [(''method'', JStr ''GET''), (''endpoint'', JStr ''/users''),
               (''headers'', JObj [(''Authorization'', JStr ''Bearer mine''),
                                   (''Accept'', JStr ''text/plain'')])]"]
  by (simp add: Let_def authMethod_def hasBasicAuth_def hasBearerAuth_def hasApiKeyAuth_def
      overlay_def)

subsection \<open>Empty credential variables\<close>

text \<open>
  C10. A credential variable set to the empty string counts as absent: replacing it by
  an unset variable changes neither the mode nor the request. So with \<^verbatim>\<open>AUTH_BEARER\<close>
  empty and neither basic nor apikey credentials the mode is none and the caller's
  headers go out without an \<^verbatim>\<open>Authorization\<close> header added; and with an empty
  \<^verbatim>\<open>AUTH_BASIC_PASSWORD\<close> (or user name) basic is not active.
\<close>

theorem empty_credential_counts_as_absent:
  "authMethod (e\<lparr>AUTH_BEARER := Some []\<rparr>) = authMethod (e\<lparr>AUTH_BEARER := None\<rparr>)
   \<and> request_config (e\<lparr>AUTH_BEARER := Some []\<rparr>) arguments =
       request_config (e\<lparr>AUTH_BEARER := None\<rparr>) arguments
   \<and> authMethod (e\<lparr>AUTH_BASIC_USERNAME := Some []\<rparr>) = authMethod (e\<lparr>AUTH_BASIC_USERNAME := None\<rparr>)
   \<and> request_config (e\<lparr>AUTH_BASIC_USERNAME := Some []\<rparr>) arguments =
       request_config (e\<lparr>AUTH_BASIC_USERNAME := None\<rparr>) arguments
   \<and> authMethod (e\<lparr>AUTH_BASIC_PASSWORD := Some []\<rparr>) = authMethod (e\<lparr>AUTH_BASIC_PASSWORD := None\<rparr>)
   \<and> request_config (e\<lparr>AUTH_BASIC_PASSWORD := Some []\<rparr>) arguments =
       request_config (e\<lparr>AUTH_BASIC_PASSWORD := None\<rparr>) arguments
   \<and> authMethod (e\<lparr>AUTH_APIKEY_HEADER_NAME := Some []\<rparr>) =
       authMethod (e\<lparr>AUTH_APIKEY_HEADER_NAME := None\<rparr>)
   \<and> request_config (e\<lparr>AUTH_APIKEY_HEADER_NAME := Some []\<rparr>) arguments =
       request_config (e\<lparr>AUTH_APIKEY_HEADER_NAME := None\<rparr>) arguments
   \<and> authMethod (e\<lparr>AUTH_APIKEY_VALUE := Some []\<rparr>) = authMethod (e\<lparr>AUTH_APIKEY_VALUE := None\<rparr>)
   \<and> request_config (e\<lparr>AUTH_APIKEY_VALUE := Some []\<rparr>) arguments =
       request_config (e\<lparr>AUTH_APIKEY_VALUE := None\<rparr>) arguments
   \<and> (AUTH_BEARER e = Some [] \<and> \<not> hasBasicAuth e \<and> \<not> hasApiKeyAuth e \<longrightarrow>
        authMethod e = ''none''
        \<and> headers (request_config e arguments) =
            (if truthy (get_prop arguments ''headers'') then get_prop arguments ''headers''
             else JObj []))
   \<and> (AUTH_BASIC_PASSWORD e = Some [] \<or> AUTH_BASIC_USERNAME e = Some [] \<longrightarrow>
        \<not> hasBasicAuth e \<and> authMethod e \<noteq> ''basic'')"
proof -
  have bearer:
    "authMethod (e\<lparr>AUTH_BEARER := Some []\<rparr>) = authMethod (e\<lparr>AUTH_BEARER := None\<rparr>)"
    "request_config (e\<lparr>AUTH_BEARER := Some []\<rparr>) arguments =
       request_config (e\<lparr>AUTH_BEARER := None\<rparr>) arguments"
    by (simp_all add: authMethod_def request_config_def add_auth_def hasBasicAuth_def
        hasBearerAuth_def hasApiKeyAuth_def Let_def)
  have user:
    "authMethod (e\<lparr>AUTH_BASIC_USERNAME := Some []\<rparr>) = authMethod (e\<lparr>AUTH_BASIC_USERNAME := None\<rparr>)"
    "request_config (e\<lparr>AUTH_BASIC_USERNAME := Some []\<rparr>) arguments =
       request_config (e\<lparr>AUTH_BASIC_USERNAME := None\<rparr>) arguments"
    by (simp_all add: authMethod_def request_config_def add_auth_def hasBasicAuth_def
        hasBearerAuth_def hasApiKeyAuth_def Let_def)
  have password:
    "authMethod (e\<lparr>AUTH_BASIC_PASSWORD := Some []\<rparr>) = authMethod (e\<lparr>AUTH_BASIC_PASSWORD := None\<rparr>)"
    "request_config (e\<lparr>AUTH_BASIC_PASSWORD := Some []\<rparr>) arguments =
       request_config (e\<lparr>AUTH_BASIC_PASSWORD := None\<rparr>) arguments"
    by (simp_all add: authMethod_def request_config_def add_auth_def hasBasicAuth_def
        hasBearerAuth_def hasApiKeyAuth_def Let_def)
  have key_name:
    "authMethod (e\<lparr>AUTH_APIKEY_HEADER_NAME := Some []\<rparr>) =
       authMethod (e\<lparr>AUTH_APIKEY_HEADER_NAME := None\<rparr>)"
    "request_config (e\<lparr>AUTH_APIKEY_HEADER_NAME := Some []\<rparr>) arguments =
       request_config (e\<lparr>AUTH_APIKEY_HEADER_NAME := None\<rparr>) arguments"
    by (simp_all add: authMethod_def request_config_def add_auth_def hasBasicAuth_def
        hasBearerAuth_def hasApiKeyAuth_def Let_def)
  have key_value:
    "authMethod (e\<lparr>AUTH_APIKEY_VALUE := Some []\<rparr>) = authMethod (e\<lparr>AUTH_APIKEY_VALUE := None\<rparr>)"
    "request_config (e\<lparr>AUTH_APIKEY_VALUE := Some []\<rparr>) arguments =
       request_config (e\<lparr>AUTH_APIKEY_VALUE := None\<rparr>) arguments"
    by (simp_all add: authMethod_def request_config_def add_auth_def hasBasicAuth_def
        hasBearerAuth_def hasApiKeyAuth_def Let_def)
  have only_bearer:
    "AUTH_BEARER e = Some [] \<and> \<not> hasBasicAuth e \<and> \<not> hasApiKeyAuth e \<longrightarrow>
        authMethod e = ''none''
        \<and> headers (request_config e arguments) =
            (if truthy (get_prop arguments ''headers'') then get_prop arguments ''headers''
             else JObj [])"
    by (simp add: authMethod_def request_config_headers add_auth_def hasBearerAuth_def
        initial_config_def)
  have half_basic:
    "AUTH_BASIC_PASSWORD e = Some [] \<or> AUTH_BASIC_USERNAME e = Some [] \<longrightarrow>
        \<not> hasBasicAuth e \<and> authMethod e \<noteq> ''basic''"
    by (auto simp: authMethod_def hasBasicAuth_def)
  from bearer user password key_name key_value only_bearer half_basic show ?thesis
    by blast
qed

theorem empty_credential_counts_as_absent_witness:
  "authMethod
     \<lparr>REST_BASE_URL = ''http://api.test'', AUTH_BASIC_USERNAME = None,
      AUTH_BASIC_PASSWORD = None, AUTH_BEARER = Some [],
      AUTH_APIKEY_HEADER_NAME = None, AUTH_APIKEY_VALUE = None\<rparr> = ''none''
   \<and> headers
     (request_config
        \<lparr>REST_BASE_URL = ''http://api.test'', AUTH_BASIC_USERNAME = None,
         AUTH_BASIC_PASSWORD = None, AUTH_BEARER = Some [],
         AUTH_APIKEY_HEADER_NAME = None, AUTH_APIKEY_VALUE = None\<rparr>
        (JObj [(''method'', JStr ''GET''), (''endpoint'', JStr ''/users'')])) = JObj []
   \<and> authMethod
     \<lparr>REST_BASE_URL = ''http://api.test'', AUTH_BASIC_USERNAME = Some ''u'',
      AUTH_BASIC_PASSWORD = Some [], AUTH_BEARER = None,
      AUTH_APIKEY_HEADER_NAME = None, AUTH_APIKEY_VALUE = None\<rparr> = ''none''"
  using
    empty_credential_counts_as_absent
      [where e = "\<lparr>REST_BASE_URL = ''http://api.test'', AUTH_BASIC_USERNAME = None,
           AUTH_BASIC_PASSWORD = None, AUTH_BEARER = Some [],
           AUTH_APIKEY_HEADER_NAME = None, AUTH_APIKEY_VALUE = None\<rparr>"
         and arguments = "JObj [(''method'', JStr ''GET''), (''endpoint'', JStr ''/users'')]"]
    empty_credential_counts_as_absent
      [where e = "\<lparr>REST_BASE_URL = ''http://api.test'', AUTH_BASIC_USERNAME = Some ''u'',
           AUTH_BASIC_PASSWORD = Some [], AUTH_BEARER = None,
           AUTH_APIKEY_HEADER_NAME = None, AUTH_APIKEY_VALUE = None\<rparr>"
         and arguments = "JObj [(''method'', JStr ''GET''), (''endpoint'', JStr ''/users'')]"]
  by (simp add: authMethod_def hasBasicAuth_def hasBearerAuth_def hasApiKeyAuth_def
      request_config_def add_auth_def add_body_def initial_config_def)

end
